theory Spec2Isabelle
  imports Main
begin

section \<open>Python strings\<close>

text \<open>
  A Python \<open>str\<close> is a sequence of Unicode code points. Isabelle's \<open>char\<close> has eight
  bits only, so a \<open>str\<close> is modelled as a list of code point numbers. ASCII literals
  are written through \<open>u\<close>; the other code points of a literal are given by number.
\<close>

type_synonym ustring = "nat list"

definition u :: "string \<Rightarrow> ustring" where
  "u s = map of_char s"

text \<open>
  \<open>str.strip\<close>, \<open>str.lower\<close> and the classes \<open>\w\<close> and \<open>\s\<close> of the module \<open>re\<close> are
  defined by the Unicode tables of the interpreter, which are not part of the
  repository: they are parameters of the model.
  \<^item> \<open>isspace\<close> is the whitespace predicate, used by \<open>str.strip()\<close> and by \<open>\s\<close> alike;
  \<^item> \<open>isword\<close> is the class \<open>\w\<close> (alphanumeric or underscore);
  \<^item> \<open>lower\<close> is \<open>str.lower\<close>, on whole strings (its result for one character may
    depend on the neighbours and may be longer than one code point).
\<close>

record ucd =
  isspace :: "nat \<Rightarrow> bool"
  isword :: "nat \<Rightarrow> bool"
  lower :: "ustring \<Rightarrow> ustring"

text \<open>\<open>s.strip()\<close>: leading and trailing whitespace removed.\<close>

definition strip :: "ucd \<Rightarrow> ustring \<Rightarrow> ustring" where
  "strip U s = rev (dropWhile (isspace U) (rev (dropWhile (isspace U) s)))"

text \<open>
  The tables restricted to ASCII, for evaluating the model on ASCII inputs: the
  whitespace characters below 128 are 9 to 13, 28 to 31 and 32, the word characters are
  the digits, the letters and the underscore, and \<open>lower\<close> maps \<open>A\<close>-\<open>Z\<close> to \<open>a\<close>-\<open>z\<close>
  and leaves every other code point as it is.
\<close>

definition ascii_isspace :: "nat \<Rightarrow> bool" where
  "ascii_isspace c \<longleftrightarrow> (9 \<le> c \<and> c \<le> 13) \<or> (28 \<le> c \<and> c \<le> 32)"

definition ascii_isword :: "nat \<Rightarrow> bool" where
  "ascii_isword c \<longleftrightarrow>
     (48 \<le> c \<and> c \<le> 57) \<or> (65 \<le> c \<and> c \<le> 90) \<or> c = 95 \<or> (97 \<le> c \<and> c \<le> 122)"

definition ascii_lower :: "ustring \<Rightarrow> ustring" where
  "ascii_lower s = map (\<lambda>c. if 65 \<le> c \<and> c \<le> 90 then c + 32 else c) s"

definition ascii_ucd :: ucd where
  "ascii_ucd = \<lparr> isspace = ascii_isspace, isword = ascii_isword, lower = ascii_lower \<rparr>"

section \<open>Sanitizing the model's answer\<close>

text \<open>
  \<open>sanitize_response\<close> first deletes every asterisk (\<open>re.sub\<close> with the pattern of a
  literal asterisk), then deletes every match of a negated character class, then
  returns \<open>response.strip()\<close>. The class keeps a character when it is a word character,
  whitespace, or one of: comma, full stop, exclamation mark, question mark, percent
  sign, euro sign (code point 0x20AC), dollar sign, pound sign (code point 0xA3), and
  hyphen (the last character of the class, hence literal).
\<close>

definition asterisk :: nat where
  "asterisk = 42"

definition punctuation :: "nat list" where
  "punctuation = [44, 46, 33, 63, 37, 0x20AC, 36, 0xA3, 45]"

definition whitelisted :: "ucd \<Rightarrow> nat \<Rightarrow> bool" where
  "whitelisted U c \<longleftrightarrow> isword U c \<or> isspace U c \<or> c \<in> set punctuation"

definition sanitize_response :: "ucd \<Rightarrow> ustring \<Rightarrow> ustring" where
  "sanitize_response U response =
     (let response = filter (\<lambda>c. c \<noteq> asterisk) response;
          response = filter (whitelisted U) response
      in strip U response)"

section \<open>Exceptions, external calls and the environment\<close>

text \<open>
  The only exception class the program names is \<open>HttpError\<close> (of the Google API
  client); every other exception is \<open>OtherError\<close>. Each carries its \<open>str()\<close> rendering,
  which is what the program formats into its replies.
\<close>

datatype exn = HttpError ustring | OtherError ustring

fun str_exn :: "exn \<Rightarrow> ustring" where
  "str_exn (HttpError s) = s"
| "str_exn (OtherError s) = s"

record keyboard =
  buttons :: "ustring list list"
  resize_keyboard :: bool
  one_time_keyboard :: bool

record creds =
  valid :: bool
  expired :: bool
  refresh_token :: "ustring option"

type_synonym rows = "ustring list list"

text \<open>
  What \<open>get_google_sheets_data\<close> returns: the rows, or a string. The caller tells
  them apart with \<open>isinstance(data, str)\<close>.
\<close>

datatype sheet_data = Str ustring | Rows rows

text \<open>
  The calls the program makes to the outside, in the order it makes them, are the
  trace of a run: the Telegram calls (\<open>reply_text\<close>, \<open>send_message\<close>,
  \<open>get_chat_history\<close>, \<open>delete_message\<close>), the credential refresh and the interactive
  authorization flow, the write to \<open>os.environ\<close>, the spreadsheet read (spreadsheet
  identifier and range) and the Gemini call (model name and prompt).
\<close>

datatype call =
    Reply_text ustring "keyboard option"
  | Send_message int ustring "keyboard option"
  | Get_chat_history int
  | Delete_message int int
  | Refresh
  | Run_local_server
  | Environ_set creds
  | Values_get "ustring option" ustring
  | Generate_content ustring ustring

text \<open>
  The environment gives the configuration read at import time and the outcome of every
  external call: \<open>Inl\<close> (or \<open>Some\<close>) is the exception the call raises.
  \<^item> \<open>from_authorized_user_info\<close>: \<open>json.loads\<close> of the token and the construction of
    the credentials;
  \<^item> \<open>run_local_server\<close>: \<open>json.loads\<close> of the client secret, the construction of the
    flow and its run;
  \<^item> \<open>values_get\<close>: the body of the \<open>try\<close> block up to \<open>execute()\<close>, giving the
    \<open>values\<close> entry of the result when there is one;
  \<^item> \<open>generate_content\<close>: the construction of the model, the request and the read of
    \<open>response.text\<close>;
  \<^item> \<open>telegram\<close>: whether a Telegram call raises;
  \<^item> \<open>get_chat_history\<close>: the identifiers of the messages the iteration yields, and
    the exception that ends it, if any.
\<close>

record env =
  GOOGLE_TOKEN_JSON :: "ustring option"
  SPREADSHEET_ID :: "ustring option"
  from_authorized_user_info :: "ustring \<Rightarrow> exn + creds"
  refresh :: "creds \<Rightarrow> exn + creds"
  run_local_server :: "exn + creds"
  values_get :: "creds \<Rightarrow> exn + rows option"
  json_dumps :: "rows \<Rightarrow> ustring"
  generate_content :: "ustring \<Rightarrow> exn + ustring"
  telegram :: "call \<Rightarrow> exn option"
  get_chat_history :: "int \<Rightarrow> int list \<times> exn option"

text \<open>Truth value of an optional string: \<open>None\<close> and the empty string are false.\<close>

fun truthy :: "ustring option \<Rightarrow> bool" where
  "truthy None = False"
| "truthy (Some s) = (s \<noteq> [])"

section \<open>Constants of the program\<close>

definition MENU_KEYBOARD :: keyboard where
  "MENU_KEYBOARD =
     \<lparr> buttons = [[[0x1F4C5] @ u '' Vig'' @ [0xEA] @ u ''ncia do contrato 71'',
                    [0x1F5D1] @ u '' Limpar hist'' @ [0xF3] @ u ''rico'']],
       resize_keyboard = True, one_time_keyboard = False \<rparr>"

definition AUTHORIZED_USERS :: "ustring set" where
  "AUTHORIZED_USERS = {u ''raphael'', u ''mariana'', u ''nilza'', u ''matheus''}"

definition authorized :: ustring where
  "authorized = u ''authorized''"

definition access_granted :: ustring where
  "access_granted = [0x2705] @ u '' Acesso autorizado! Como posso te ajudar?''"

definition access_denied :: ustring where
  "access_denied =
     [0x274C] @ u '' Usu'' @ [0xE1] @ u ''rio n'' @ [0xE3] @ u ''o autorizado. Voc'' @ [0xEA]
     @ u '' n'' @ [0xE3] @ u ''o pode interagir com o bot.''"

definition contract_caption :: ustring where
  "contract_caption = [0x1F4C5] @ u '' vig'' @ [0xEA] @ u ''ncia do contrato 71''"

definition contract_reply :: ustring where
  "contract_reply =
     [0x1F4CC] @ u '' O contrato 71 tem vig'' @ [0xEA] @ u ''ncia at'' @ [0xE9]
     @ u '' 29/04/2025.''"

definition clear_caption :: ustring where
  "clear_caption = [0x1F5D1] @ u '' limpar hist'' @ [0xF3] @ u ''rico''"

definition sheet_error_prefix :: ustring where
  "sheet_error_prefix = [0x26A0] @ [0xFE0F] @ u '' Erro ao acessar a planilha: ''"

definition no_data :: ustring where
  "no_data = u ''Nenhum dado encontrado.''"

definition sheet_range :: ustring where
  "sheet_range = u ''P'' @ [0xE1] @ u ''gina1!A1:D28''"

definition model_name :: ustring where
  "model_name = u ''gemini-1.5-pro-latest''"

definition clearing_text :: ustring where
  "clearing_text = [0x1F5D1] @ u '' Limpando hist'' @ [0xF3] @ u ''rico de conversa...''"

definition cleared_text :: ustring where
  "cleared_text = [0x2705] @ u '' Hist'' @ [0xF3] @ u ''rico limpo com sucesso!''"

definition clear_error_prefix :: ustring where
  "clear_error_prefix =
     [0x26A0] @ [0xFE0F] @ u '' Erro ao limpar hist'' @ [0xF3] @ u ''rico: ''"

definition welcome_text :: ustring where
  "welcome_text =
     [0x1F44B] @ u '' Ol'' @ [0xE1]
     @ u ''! Sou um bot que analisa dados dos contratos. Antes de continuar, por favor, me diga seu nome:''"

text \<open>The f-string of the prompt, around the JSON text and the user's text.\<close>

definition prompt :: "ustring \<Rightarrow> ustring \<Rightarrow> ustring" where
  "prompt json_data user_text =
     [10] @ u ''    Voc'' @ [0xEA] @ u '' '' @ [0xE9]
     @ u '' um assistente especializado em an'' @ [0xE1] @ u ''lise de dados de planilhas. ''
     @ [10] @ u ''    Aqui est'' @ [0xE3] @ u ''o os dados da planilha em formato JSON:''
     @ [10] @ u ''    '' @ json_data
     @ [10] @ [10] @ u ''    Responda '' @ [0xE0] @ u '' seguinte pergunta do usu'' @ [0xE1]
     @ u ''rio com base nesses dados:''
     @ [10] @ u ''    '' @ user_text
     @ [10] @ u ''    ''"

section \<open>The Gemini call\<close>

text \<open>
  \<open>generate_gemini_response\<close> has no \<open>try\<close>: an exception of the service is the
  function's own.
\<close>

definition generate_gemini_response :: "ucd \<Rightarrow> env \<Rightarrow> ustring \<Rightarrow> call list \<times> (exn + ustring)" where
  "generate_gemini_response U E p =
     ([Generate_content model_name p],
      case generate_content E p of
        Inl e \<Rightarrow> Inl e
      | Inr response_text \<Rightarrow> Inr (strip U response_text))"

section \<open>The spreadsheet fetch\<close>

text \<open>
  The first half of \<open>get_google_sheets_data\<close>, before its \<open>try\<close>: the credentials are
  read from the token when it is set; credentials that are missing or not valid are
  refreshed (when expired and with a refresh token) or obtained from the interactive
  flow, and written to \<open>os.environ\<close>. Nothing raised here is caught.
\<close>

definition renew_credentials :: "env \<Rightarrow> creds option \<Rightarrow> call list \<times> (exn + creds)" where
  "renew_credentials E cr =
     (case (case cr of
              None \<Rightarrow> (Run_local_server, run_local_server E)
            | Some c \<Rightarrow>
                if expired c \<and> truthy (refresh_token c) then (Refresh, refresh E c)
                else (Run_local_server, run_local_server E)) of
        (cl, Inl e) \<Rightarrow> ([cl], Inl e)
      | (cl, Inr c') \<Rightarrow> ([cl, Environ_set c'], Inr c'))"

definition get_credentials :: "env \<Rightarrow> call list \<times> (exn + creds)" where
  "get_credentials E =
     (case (if truthy (GOOGLE_TOKEN_JSON E)
            then map_sum id Some (from_authorized_user_info E (the (GOOGLE_TOKEN_JSON E)))
            else Inr None) of
        Inl e \<Rightarrow> ([], Inl e)
      | Inr None \<Rightarrow> renew_credentials E None
      | Inr (Some c) \<Rightarrow> if valid c then ([], Inr c) else renew_credentials E (Some c))"

text \<open>
  The second half: the read inside \<open>try\<close>, whose only handler is
  \<open>except HttpError as err: return str(err)\<close>.
\<close>

definition get_google_sheets_data :: "env \<Rightarrow> call list \<times> (exn + sheet_data)" where
  "get_google_sheets_data E =
     (case get_credentials E of
        (tr, Inl e) \<Rightarrow> (tr, Inl e)
      | (tr, Inr c) \<Rightarrow>
          (tr @ [Values_get (SPREADSHEET_ID E) sheet_range],
           case values_get E c of
             Inl (HttpError s) \<Rightarrow> Inr (Str (str_exn (HttpError s)))
           | Inl (OtherError s) \<Rightarrow> Inl (OtherError s)
           | Inr result \<Rightarrow>
               (let values = (case result of None \<Rightarrow> [] | Some v \<Rightarrow> v)
                in if values = [] then Inr (Str no_data) else Inr (Rows values))))"

section \<open>The handlers\<close>

type_synonym user_state = "int \<rightharpoonup> ustring"

record message =
  chat_id :: int
  "text" :: ustring

text \<open>
  A handler returns the new \<open>USER_STATE\<close>, the trace of its calls and the exception
  it ends with, if any. A call that raises is in the trace: it was made.
\<close>

type_synonym outcome = "user_state \<times> call list \<times> exn option"

definition reply_text :: "env \<Rightarrow> ustring \<Rightarrow> keyboard option \<Rightarrow> call list \<times> exn option" where
  "reply_text E t k = ([Reply_text t k], telegram E (Reply_text t k))"

fun delete_messages :: "env \<Rightarrow> int \<Rightarrow> int list \<Rightarrow> call list \<times> exn option" where
  "delete_messages E c [] = ([], None)"
| "delete_messages E c (m # ms) =
     (case telegram E (Delete_message c m) of
        Some e \<Rightarrow> ([Delete_message c m], Some e)
      | None \<Rightarrow> (case delete_messages E c ms of (tr, r) \<Rightarrow> (Delete_message c m # tr, r)))"

text \<open>The \<open>try\<close> block of \<open>clear_chat_history\<close>.\<close>

definition clear_chat_history_try :: "env \<Rightarrow> int \<Rightarrow> call list \<times> exn option" where
  "clear_chat_history_try E c =
     (case telegram E (Send_message c clearing_text None) of
        Some e \<Rightarrow> ([Send_message c clearing_text None], Some e)
      | None \<Rightarrow>
          (case get_chat_history E c of (ids, stop) \<Rightarrow>
             (case delete_messages E c ids of
                (tr, Some e) \<Rightarrow> (Send_message c clearing_text None # Get_chat_history c # tr, Some e)
              | (tr, None) \<Rightarrow>
                  (case stop of
                     Some e \<Rightarrow> (Send_message c clearing_text None # Get_chat_history c # tr, Some e)
                   | None \<Rightarrow>
                       (Send_message c clearing_text None # Get_chat_history c # tr
                          @ [Send_message c cleared_text (Some MENU_KEYBOARD)],
                        telegram E (Send_message c cleared_text (Some MENU_KEYBOARD)))))))"

definition clear_chat_history :: "env \<Rightarrow> message \<Rightarrow> call list \<times> exn option" where
  "clear_chat_history E m =
     (case clear_chat_history_try E (chat_id m) of
        (tr, None) \<Rightarrow> (tr, None)
      | (tr, Some e) \<Rightarrow>
          (tr @ [Send_message (chat_id m) (clear_error_prefix @ str_exn e) None],
           telegram E (Send_message (chat_id m) (clear_error_prefix @ str_exn e) None)))"

definition handle_message :: "ucd \<Rightarrow> env \<Rightarrow> user_state \<Rightarrow> message \<Rightarrow> outcome" where
  "handle_message U E USER_STATE m =
     (let user_text = lower U (strip U (text m)) in
      if USER_STATE (chat_id m) = None then
        (if user_text \<in> AUTHORIZED_USERS
         then ((USER_STATE(chat_id m \<mapsto> authorized)),
               reply_text E access_granted (Some MENU_KEYBOARD))
         else (USER_STATE, reply_text E access_denied None))
      else if user_text = contract_caption then (USER_STATE, reply_text E contract_reply None)
      else if user_text = clear_caption then (USER_STATE, clear_chat_history E m)
      else
        (case get_google_sheets_data E of
           (tr, Inl e) \<Rightarrow> (USER_STATE, tr, Some e)
         | (tr, Inr (Str s)) \<Rightarrow>
             (USER_STATE, tr @ [Reply_text (sheet_error_prefix @ s) None],
              telegram E (Reply_text (sheet_error_prefix @ s) None))
         | (tr, Inr (Rows data)) \<Rightarrow>
             (case generate_gemini_response U E (prompt (json_dumps E data) user_text) of
                (tr', Inl e) \<Rightarrow> (USER_STATE, tr @ tr', Some e)
              | (tr', Inr response) \<Rightarrow>
                  (USER_STATE, tr @ tr' @ [Reply_text (sanitize_response U response) None],
                   telegram E (Reply_text (sanitize_response U response) None)))))"

text \<open>\<open>start\<close>: \<open>USER_STATE.pop(chat_id, None)\<close>, then the welcome.\<close>

definition start :: "env \<Rightarrow> user_state \<Rightarrow> message \<Rightarrow> outcome" where
  "start E USER_STATE m = (USER_STATE(chat_id m := None), reply_text E welcome_text None)"

text \<open>
  \<open>main\<close> registers \<open>start\<close> for the command \<open>/start\<close> and \<open>handle_message\<close> for text
  that is not a command. The dispatcher of the library handles one update at a time
  and keeps running when a handler raises; \<open>USER_STATE\<close> lives as long as the process
  and starts empty.
\<close>

datatype update = Start_command message | Text_message message

fun message_of :: "update \<Rightarrow> message" where
  "message_of (Start_command m) = m"
| "message_of (Text_message m) = m"

fun dispatch :: "ucd \<Rightarrow> env \<Rightarrow> user_state \<Rightarrow> update \<Rightarrow> outcome" where
  "dispatch U E st (Start_command m) = start E st m"
| "dispatch U E st (Text_message m) = handle_message U E st m"

fun run :: "ucd \<Rightarrow> user_state \<Rightarrow> (env \<times> update) list \<Rightarrow> user_state" where
  "run U st [] = st"
| "run U st ((E, up) # ups) = run U (fst (dispatch U E st up)) ups"

section \<open>Sample inputs\<close>

text \<open>
  An environment in which every external call succeeds: the token gives valid
  credentials, the spreadsheet has one row, and \<open>json_dumps\<close> is the rendering of that
  row by \<open>json.dumps\<close> with \<open>indent=2\<close>. The theorems below are evaluated on it and
  on variants of it.
\<close>

definition sample_creds :: creds where
  "sample_creds = \<lparr> valid = True, expired = False, refresh_token = None \<rparr>"

definition sample_env :: env where
  "sample_env =
     \<lparr> GOOGLE_TOKEN_JSON = Some (u ''{}''),
       SPREADSHEET_ID = Some (u ''sheet''),
       from_authorized_user_info = (\<lambda>t. Inr sample_creds),
       refresh = (\<lambda>c. Inr c),
       run_local_server = Inl (OtherError (u ''no browser'')),
       values_get = (\<lambda>c. Inr (Some [[u ''contrato'', u ''71'']])),
       json_dumps = (\<lambda>r. [91, 10, 32, 32, 91, 10, 32, 32, 32, 32, 34] @ u ''contrato''
                           @ [34, 44, 10, 32, 32, 32, 32, 34] @ u ''71''
                           @ [34, 10, 32, 32, 93, 10, 93]),
       generate_content = (\<lambda>p. Inr (u ''**29/04/2025** '')),
       telegram = (\<lambda>c. None),
       get_chat_history = (\<lambda>c. ([], None)) \<rparr>"

text \<open>
  Variants of the sample environment: the spreadsheet read raises an \<open>HttpError\<close>; it
  raises an exception of another class; it returns no rows; the Gemini call raises.
\<close>

definition forbidden_env :: env where
  "forbidden_env = sample_env\<lparr>values_get := (\<lambda>c. Inl (HttpError (u ''HttpError 403'')))\<rparr>"

definition timeout_env :: env where
  "timeout_env = sample_env\<lparr>values_get := (\<lambda>c. Inl (OtherError (u ''timed out'')))\<rparr>"

definition blank_env :: env where
  "blank_env = sample_env\<lparr>values_get := (\<lambda>c. Inr (Some []))\<rparr>"

definition quota_env :: env where
  "quota_env = sample_env\<lparr>generate_content := (\<lambda>p. Inl (OtherError (u ''429 quota'')))\<rparr>"

text \<open>
  A sequence of updates: a chat that gives an accepted name, one that does not, and one
  that gives an accepted name and then sends \<open>/start\<close>.
\<close>

definition sample_updates :: "(env \<times> update) list" where
  "sample_updates =
     [(sample_env, Text_message \<lparr> chat_id = 7, text = u '' Raphael '' \<rparr>),
      (sample_env, Text_message \<lparr> chat_id = 8, text = u ''nobody'' \<rparr>),
      (sample_env, Text_message \<lparr> chat_id = 9, text = u ''NILZA'' \<rparr>),
      (sample_env, Start_command \<lparr> chat_id = 9, text = u ''/start'' \<rparr>)]"

text \<open>The invariant of \<open>USER_STATE\<close>: the only value stored is \<open>"authorized"\<close>.\<close>

definition only_authorized :: "user_state \<Rightarrow> bool" where
  "only_authorized st \<longleftrightarrow> (\<forall>c v. st c = Some v \<longrightarrow> v = authorized)"

section \<open>Properties of \<open>strip\<close>\<close>

lemmas text_defs =
  u_def strip_def ascii_ucd_def ascii_isspace_def ascii_isword_def ascii_lower_def

lemma set_strip: "set (strip U s) \<subseteq> set s"
proof -
  have "set (strip U s) = set (dropWhile (isspace U) (rev (dropWhile (isspace U) s)))"
    by (simp add: strip_def)
  also have "\<dots> \<subseteq> set (rev (dropWhile (isspace U) s))"
    by (meson set_dropWhileD subsetI)
  also have "\<dots> \<subseteq> set s"
    using set_dropWhileD by fastforce
  finally show ?thesis .
qed

text \<open>Dropping trailing elements, one cons at a time.\<close>

lemma rstrip_Cons:
  "rev (dropWhile P (rev (x # xs))) =
     (if rev (dropWhile P (rev xs)) = [] then (if P x then [] else [x])
      else x # rev (dropWhile P (rev xs)))"
  by (auto simp: dropWhile_append dropWhile_eq_Nil_conv)

lemma dropWhile_rstrip:
  assumes "ys = [] \<or> \<not> P (hd ys)"
  shows "dropWhile P (rev (dropWhile P (rev ys))) = rev (dropWhile P (rev ys))"
proof (cases ys)
  case Nil
  then show ?thesis by simp
next
  case (Cons x xs)
  with assms have "\<not> P x" by simp
  then show ?thesis unfolding Cons rstrip_Cons by simp
qed

lemma dropWhile_strip: "dropWhile (isspace U) (strip U s) = strip U s"
  unfolding strip_def by (rule dropWhile_rstrip) (metis hd_dropWhile)

lemma strip_idem: "strip U (strip U s) = strip U s"
proof -
  have "strip U (strip U s) = rev (dropWhile (isspace U) (rev (strip U s)))"
    by (simp add: strip_def[of U "strip U s"] dropWhile_strip)
  also have "rev (strip U s) = dropWhile (isspace U) (rev (dropWhile (isspace U) s))"
    by (simp add: strip_def)
  also have "rev (dropWhile (isspace U) (dropWhile (isspace U) (rev (dropWhile (isspace U) s))))
               = strip U s"
    by (simp add: strip_def)
  finally show ?thesis .
qed

text \<open>A string is its leading whitespace, its stripped part and its trailing whitespace.\<close>

lemma strip_decomp:
  "s = takeWhile (isspace U) s @ strip U s
        @ rev (takeWhile (isspace U) (rev (dropWhile (isspace U) s)))"
proof -
  define t where "t = dropWhile (isspace U) s"
  have "rev t = takeWhile (isspace U) (rev t) @ dropWhile (isspace U) (rev t)"
    by simp
  then have "rev (rev t) = rev (takeWhile (isspace U) (rev t) @ dropWhile (isspace U) (rev t))"
    by simp
  then have "t = rev (dropWhile (isspace U) (rev t)) @ rev (takeWhile (isspace U) (rev t))"
    by (simp only: rev_rev_ident rev_append)
  moreover have "s = takeWhile (isspace U) s @ t"
    by (simp add: t_def)
  ultimately show ?thesis
    by (simp add: strip_def t_def)
qed

lemma strip_ends:
  assumes "strip U s \<noteq> []"
  shows "\<not> isspace U (hd (strip U s))" and "\<not> isspace U (last (strip U s))"
proof -
  show "\<not> isspace U (hd (strip U s))"
    using assms dropWhile_strip[of U s] by (metis hd_dropWhile)
  have "rev (strip U s) = dropWhile (isspace U) (rev (dropWhile (isspace U) s))"
    by (simp add: strip_def)
  moreover have "rev (strip U s) \<noteq> []" using assms by simp
  ultimately have "\<not> isspace U (hd (rev (strip U s)))"
    by (metis hd_dropWhile)
  then show "\<not> isspace U (last (strip U s))"
    using assms by (simp add: hd_rev)
qed

section \<open>Properties of \<open>sanitize_response\<close>\<close>

lemma sanitize_filter:
  "sanitize_response U s = strip U (filter (\<lambda>c. c \<noteq> asterisk \<and> whitelisted U c) s)"
  by (simp add: sanitize_response_def)

lemma sanitize_chars:
  "c \<in> set (sanitize_response U s) \<Longrightarrow> c \<noteq> asterisk \<and> whitelisted U c"
  using set_strip[of U "filter (\<lambda>c. c \<noteq> asterisk \<and> whitelisted U c) s"]
  by (auto simp: sanitize_filter)

text \<open>
  C3 (as the code has it). The output of \<open>sanitize_response\<close> contains no asterisk and
  no character outside the whitelist. The whitelisted characters of the input other than
  asterisks, in their order, are the output between a run of whitespace before it and a
  run of whitespace after it: the final \<open>strip()\<close> removes the leading and trailing
  whitespace, so the output neither starts nor ends with whitespace.
\<close>

theorem sanitize_response_keeps_whitelist_stripped:
  "(\<forall>c \<in> set (sanitize_response U s). c \<noteq> asterisk \<and> whitelisted U c)
   \<and> (\<exists>pre suf.
         filter (\<lambda>c. c \<noteq> asterisk \<and> whitelisted U c) s = pre @ sanitize_response U s @ suf
         \<and> (\<forall>c \<in> set pre. isspace U c) \<and> (\<forall>c \<in> set suf. isspace U c))
   \<and> (sanitize_response U s \<noteq> [] \<longrightarrow>
         \<not> isspace U (hd (sanitize_response U s))
         \<and> \<not> isspace U (last (sanitize_response U s)))"
proof (intro conjI)
  show "\<forall>c \<in> set (sanitize_response U s). c \<noteq> asterisk \<and> whitelisted U c"
    by (blast dest: sanitize_chars)
next
  define w where "w = filter (\<lambda>c. c \<noteq> asterisk \<and> whitelisted U c) s"
  define pre where "pre = takeWhile (isspace U) w"
  define suf where "suf = rev (takeWhile (isspace U) (rev (dropWhile (isspace U) w)))"
  have "w = pre @ sanitize_response U s @ suf"
    unfolding pre_def suf_def sanitize_filter w_def[symmetric] by (rule strip_decomp)
  moreover have "\<forall>c \<in> set pre. isspace U c"
    unfolding pre_def by (blast dest: set_takeWhileD)
  moreover have "\<forall>c \<in> set suf. isspace U c"
    unfolding suf_def by (auto dest: set_takeWhileD)
  ultimately show "\<exists>pre suf.
      filter (\<lambda>c. c \<noteq> asterisk \<and> whitelisted U c) s = pre @ sanitize_response U s @ suf
      \<and> (\<forall>c \<in> set pre. isspace U c) \<and> (\<forall>c \<in> set suf. isspace U c)"
    unfolding w_def by blast
next
  show "sanitize_response U s \<noteq> [] \<longrightarrow>
          \<not> isspace U (hd (sanitize_response U s))
          \<and> \<not> isspace U (last (sanitize_response U s))"
    unfolding sanitize_filter by (blast dest: strip_ends)
qed

theorem sanitize_response_keeps_whitelist_stripped_witness:
  "sanitize_response ascii_ucd (u '' a*b! #'') = u ''ab!''
   \<and> list_all (\<lambda>c. c \<noteq> asterisk \<and> whitelisted ascii_ucd c) (u ''ab!'')
   \<and> u ''ab!'' \<noteq> []
   \<and> \<not> isspace ascii_ucd (hd (u ''ab!'')) \<and> \<not> isspace ascii_ucd (last (u ''ab!''))"
proof -
  have e: "sanitize_response ascii_ucd (u '' a*b! #'') = u ''ab!''"
    by (simp add: sanitize_response_def text_defs asterisk_def whitelisted_def punctuation_def)
  show ?thesis
    using sanitize_response_keeps_whitelist_stripped[of ascii_ucd "u '' a*b! #''"]
    unfolding e by (simp add: u_def list_all_iff)
qed

text \<open>
  C3 as it is written fails: a space is whitelisted, and the leading space of the input
  \<open>" a"\<close> is not in the output \<open>"a"\<close>, which so differs from the whitelisted characters of
  the input.
\<close>

theorem sanitize_response_drops_whitelisted_space:
  "whitelisted ascii_ucd 32 \<and> 32 \<noteq> asterisk \<and> 32 \<in> set (u '' a'')
   \<and> 32 \<notin> set (sanitize_response ascii_ucd (u '' a''))
   \<and> sanitize_response ascii_ucd (u '' a'') = u ''a''
   \<and> filter (\<lambda>c. c \<noteq> asterisk \<and> whitelisted ascii_ucd c) (u '' a'') = u '' a''"
  by (simp add: sanitize_response_def text_defs asterisk_def whitelisted_def punctuation_def)

text \<open>
  C4. Sanitizing twice is sanitizing once: \<open>sanitize(sanitize(s)) = sanitize(s)\<close> for
  every string \<open>s\<close>.
\<close>

theorem sanitize_response_idempotent:
  "sanitize_response U (sanitize_response U s) = sanitize_response U s"
proof -
  have "filter (\<lambda>c. c \<noteq> asterisk \<and> whitelisted U c) (sanitize_response U s)
          = sanitize_response U s"
    by (rule filter_True) (blast dest: sanitize_chars)
  then have "sanitize_response U (sanitize_response U s) = strip U (sanitize_response U s)"
    by (simp add: sanitize_filter[of U "sanitize_response U s"])
  then show ?thesis
    by (simp add: sanitize_filter[of U s] strip_idem)
qed

theorem sanitize_response_idempotent_witness:
  "sanitize_response ascii_ucd (u '' a*b! #'') = u ''ab!''
   \<and> sanitize_response ascii_ucd (u ''ab!'') = u ''ab!''"
proof -
  have e: "sanitize_response ascii_ucd (u '' a*b! #'') = u ''ab!''"
    by (simp add: sanitize_response_def text_defs asterisk_def whitelisted_def punctuation_def)
  show ?thesis
    using sanitize_response_idempotent[of ascii_ucd "u '' a*b! #''"] unfolding e by simp
qed

section \<open>The authorization gate\<close>

text \<open>
  C1. For a chat with no entry in \<open>USER_STATE\<close>: when the stripped, lowercased text is
  one of the accepted names, \<open>handle_message\<close> records the chat as \<open>"authorized"\<close> and
  replies with the fixed greeting and the menu keyboard; for any other text it replies
  with the rejection and the chat still has no entry.
\<close>

theorem handle_message_unauthorized:
  assumes "USER_STATE (chat_id m) = None"
  shows "(lower U (strip U (text m)) \<in> AUTHORIZED_USERS \<longrightarrow>
            handle_message U E USER_STATE m =
              (USER_STATE(chat_id m \<mapsto> u ''authorized''),
               [Reply_text access_granted (Some MENU_KEYBOARD)],
               telegram E (Reply_text access_granted (Some MENU_KEYBOARD))))
       \<and> (lower U (strip U (text m)) \<notin> AUTHORIZED_USERS \<longrightarrow>
            handle_message U E USER_STATE m =
              (USER_STATE, [Reply_text access_denied None],
               telegram E (Reply_text access_denied None))
            \<and> fst (handle_message U E USER_STATE m) (chat_id m) = None)"
  using assms by (simp add: handle_message_def reply_text_def authorized_def)

theorem handle_message_unauthorized_witness:
  "Map.empty (7::int) = None
   \<and> lower ascii_ucd (strip ascii_ucd (u '' Raphael '')) \<in> AUTHORIZED_USERS
   \<and> fst (handle_message ascii_ucd sample_env Map.empty
            \<lparr> chat_id = 7, text = u '' Raphael '' \<rparr>) 7 = Some (u ''authorized'')
   \<and> lower ascii_ucd (strip ascii_ucd (u ''raphael!'')) \<notin> AUTHORIZED_USERS
   \<and> fst (handle_message ascii_ucd sample_env Map.empty
            \<lparr> chat_id = 7, text = u ''raphael!'' \<rparr>) 7 = None"
  using
    handle_message_unauthorized[of Map.empty "\<lparr> chat_id = 7, text = u '' Raphael '' \<rparr>"
      ascii_ucd sample_env]
    handle_message_unauthorized[of Map.empty "\<lparr> chat_id = 7, text = u ''raphael!'' \<rparr>"
      ascii_ucd sample_env]
  by (simp add: text_defs AUTHORIZED_USERS_def)

section \<open>Restarting with \<open>/start\<close>\<close>

lemma handle_message_state:
  "fst (handle_message U E st m) = st
   \<or> fst (handle_message U E st m) = st(chat_id m \<mapsto> authorized)"
  by (simp add: handle_message_def Let_def split: prod.splits sum.splits sheet_data.splits)

lemma dispatch_state:
  "fst (dispatch U E st up) = st
   \<or> fst (dispatch U E st up) = st(chat_id (message_of up) \<mapsto> authorized)
   \<or> fst (dispatch U E st up) = st(chat_id (message_of up) := None)"
  using handle_message_state[of U E st "message_of up"]
  by (cases up) (auto simp: start_def)

lemma dispatch_other_chat:
  "c \<noteq> chat_id (message_of up) \<Longrightarrow> fst (dispatch U E st up) c = st c"
  using dispatch_state[of U E st up] by auto

lemma run_other_chats:
  "\<forall>p \<in> set ups. chat_id (message_of (snd p)) \<noteq> c \<Longrightarrow> run U st ups c = st c"
proof (induction ups arbitrary: st)
  case Nil
  then show ?case by simp
next
  case (Cons p ups)
  obtain E up where p: "p = (E, up)" by (cases p)
  from Cons.prems have "c \<noteq> chat_id (message_of up)" by (auto simp: p)
  then have "fst (dispatch U E st up) c = st c" by (rule dispatch_other_chat)
  moreover from Cons.prems
  have "run U (fst (dispatch U E st up)) ups c = fst (dispatch U E st up) c"
    by (intro Cons.IH) simp
  ultimately show ?case by (simp add: p)
qed

lemma question_text:
  "lower ascii_ucd (strip ascii_ucd (u '' Quanto? '')) = u ''quanto?''"
  "u ''quanto?'' \<noteq> contract_caption" "u ''quanto?'' \<noteq> clear_caption"
  by (simp_all add: text_defs contract_caption_def clear_caption_def)

text \<open>
  C2. Whatever the state was, \<open>start\<close> removes the entry of its chat. After any updates
  of other chats, the chat still has no entry, so its next message is handled by the
  unauthorized branch: it is authorized again when the text is an accepted name and
  rejected otherwise.
\<close>

theorem start_requires_reauthentication:
  assumes "\<forall>p \<in> set ups. chat_id (message_of (snd p)) \<noteq> chat_id m"
  shows "fst (start E USER_STATE m) = USER_STATE(chat_id m := None)
     \<and> run U (fst (start E USER_STATE m)) ups (chat_id m) = None
     \<and> handle_message U E' (run U (fst (start E USER_STATE m)) ups) (m\<lparr>text := t\<rparr>) =
         (if lower U (strip U t) \<in> AUTHORIZED_USERS
          then ((run U (fst (start E USER_STATE m)) ups)(chat_id m \<mapsto> u ''authorized''),
                [Reply_text access_granted (Some MENU_KEYBOARD)],
                telegram E' (Reply_text access_granted (Some MENU_KEYBOARD)))
          else (run U (fst (start E USER_STATE m)) ups,
                [Reply_text access_denied None],
                telegram E' (Reply_text access_denied None)))"
proof -
  have s: "fst (start E USER_STATE m) = USER_STATE(chat_id m := None)"
    by (simp add: start_def)
  have "run U (fst (start E USER_STATE m)) ups (chat_id m)
          = fst (start E USER_STATE m) (chat_id m)"
    using assms by (rule run_other_chats)
  then have n: "run U (fst (start E USER_STATE m)) ups (chat_id m) = None"
    by (simp add: s)
  from n s show ?thesis
    by (simp add: handle_message_def reply_text_def authorized_def)
qed

theorem start_requires_reauthentication_witness:
  "chat_id (message_of (Text_message \<lparr> chat_id = 8, text = u ''nilza'' \<rparr>))
     \<noteq> chat_id \<lparr> chat_id = 7, text = u ''/start'' \<rparr>
   \<and> [7 \<mapsto> u ''authorized''] (7::int) \<noteq> None
   \<and> fst (start sample_env [7 \<mapsto> u ''authorized''] \<lparr> chat_id = 7, text = u ''/start'' \<rparr>) 7 = None
   \<and> lower ascii_ucd (strip ascii_ucd (u '' Quanto? '')) \<notin> AUTHORIZED_USERS
   \<and> snd (handle_message ascii_ucd sample_env
        (run ascii_ucd
           (fst (start sample_env [7 \<mapsto> u ''authorized''] \<lparr> chat_id = 7, text = u ''/start'' \<rparr>))
           [(sample_env, Text_message \<lparr> chat_id = 8, text = u ''nilza'' \<rparr>)])
        \<lparr> chat_id = 7, text = u '' Quanto? '' \<rparr>)
      = ([Reply_text access_denied None], None)"
proof -
  have h: "\<forall>p \<in> set [(sample_env, Text_message \<lparr> chat_id = 8, text = u ''nilza'' \<rparr>)].
       chat_id (message_of (snd p)) \<noteq> chat_id \<lparr> chat_id = 7, text = u ''/start'' \<rparr>"
    by simp
  have n: "lower ascii_ucd (strip ascii_ucd (u '' Quanto? '')) \<notin> AUTHORIZED_USERS"
    by (simp add: text_defs AUTHORIZED_USERS_def)
  have t: "telegram sample_env c = None" for c
    by (simp add: sample_env_def)
  have m: "\<lparr> chat_id = 7, text = u ''/start'' \<rparr>\<lparr>text := u '' Quanto? ''\<rparr>
             = \<lparr> chat_id = 7, text = u '' Quanto? '' \<rparr>"
    by simp
  note T = start_requires_reauthentication[OF h, of sample_env "[7 \<mapsto> u ''authorized'']"
      ascii_ucd sample_env "u '' Quanto? ''", unfolded m]
  note T1 = T[THEN conjunct1]
  note T3 = T[THEN conjunct2, THEN conjunct2, unfolded if_not_P[OF n] t]
  have "fst (start sample_env [7 \<mapsto> u ''authorized''] \<lparr> chat_id = 7, text = u ''/start'' \<rparr>) 7
      = None"
    by (simp add: T1)
  moreover have "snd (handle_message ascii_ucd sample_env
        (run ascii_ucd
           (fst (start sample_env [7 \<mapsto> u ''authorized''] \<lparr> chat_id = 7, text = u ''/start'' \<rparr>))
           [(sample_env, Text_message \<lparr> chat_id = 8, text = u ''nilza'' \<rparr>)])
        \<lparr> chat_id = 7, text = u '' Quanto? '' \<rparr>)
      = ([Reply_text access_denied None], None)"
    by (simp only: T3 snd_conv)
  ultimately show ?thesis using n by simp
qed

section \<open>The invariant of the authorization state\<close>

lemma dispatch_only_authorized:
  "only_authorized st \<Longrightarrow> only_authorized (fst (dispatch U E st up))"
  using dispatch_state[of U E st up]
  by (auto simp: only_authorized_def split: if_splits)

lemma run_only_authorized:
  "only_authorized st \<Longrightarrow> only_authorized (run U st ups)"
proof (induction ups arbitrary: st)
  case Nil
  then show ?case by simp
next
  case (Cons p ups)
  obtain E up where p: "p = (E, up)" by (cases p)
  from Cons.prems have "only_authorized (fst (dispatch U E st up))"
    by (rule dispatch_only_authorized)
  then show ?case unfolding p by (simp add: Cons.IH)
qed

text \<open>
  C10. After every sequence of messages and \<open>/start\<close> commands, starting from the empty
  \<open>USER_STATE\<close>, every entry of the state is the string \<open>"authorized"\<close>; and a handler
  leaves the entry of every chat other than the one of its update as it was.
\<close>

theorem user_state_only_authorized:
  "(\<forall>c v. run U Map.empty ups c = Some v \<longrightarrow> v = u ''authorized'')
   \<and> (\<forall>c. c \<noteq> chat_id (message_of up) \<longrightarrow> fst (dispatch U E st up) c = st c)"
proof -
  have "only_authorized (run U Map.empty ups)"
    by (rule run_only_authorized) (simp add: only_authorized_def)
  then show ?thesis
    by (auto simp: only_authorized_def authorized_def dest: dispatch_other_chat)
qed

theorem user_state_only_authorized_witness:
  "run ascii_ucd Map.empty sample_updates 7 = Some (u ''authorized'')
   \<and> run ascii_ucd Map.empty sample_updates 8 = None
   \<and> run ascii_ucd Map.empty sample_updates 9 = None
   \<and> (8::int) \<noteq> chat_id (message_of (Text_message \<lparr> chat_id = 7, text = u '' Raphael '' \<rparr>))
   \<and> fst (dispatch ascii_ucd sample_env [8 \<mapsto> u ''authorized'']
            (Text_message \<lparr> chat_id = 7, text = u '' Raphael '' \<rparr>)) 8 = Some (u ''authorized'')"
proof -
  have r: "run ascii_ucd Map.empty sample_updates = [7 \<mapsto> u ''authorized'']"
    by (simp add: sample_updates_def handle_message_def start_def reply_text_def text_defs
        AUTHORIZED_USERS_def authorized_def fun_eq_iff)
  show ?thesis
    using user_state_only_authorized[of ascii_ucd sample_updates
        "Text_message \<lparr> chat_id = 7, text = u '' Raphael '' \<rparr>" sample_env
        "[8 \<mapsto> u ''authorized'']"]
    unfolding r by simp
qed

section \<open>The menu button\<close>

text \<open>
  C7. For a chat with an entry in \<open>USER_STATE\<close>, a message whose stripped, lowercased
  text is the caption of the contract button gets the fixed reply about the contract's
  expiry and nothing else: the only call is that \<open>reply_text\<close>, in every environment,
  so neither the spreadsheet nor Gemini is consulted.
\<close>

theorem contract_button_fixed_reply:
  assumes "USER_STATE (chat_id m) \<noteq> None"
      and "lower U (strip U (text m)) = contract_caption"
  shows "handle_message U E USER_STATE m =
           (USER_STATE, [Reply_text contract_reply None],
            telegram E (Reply_text contract_reply None))"
  using assms by (auto simp add: handle_message_def reply_text_def)

theorem contract_button_fixed_reply_witness:
  "[7 \<mapsto> authorized] (7::int) \<noteq> None
   \<and> lower ascii_ucd
        (strip ascii_ucd ([0x1F4C5] @ u '' Vig'' @ [0xEA] @ u ''ncia do contrato 71''))
       = contract_caption
   \<and> handle_message ascii_ucd sample_env [7 \<mapsto> authorized]
        \<lparr> chat_id = 7, text = [0x1F4C5] @ u '' Vig'' @ [0xEA] @ u ''ncia do contrato 71'' \<rparr>
       = ([7 \<mapsto> authorized], [Reply_text contract_reply None], None)"
proof -
  have l: "lower ascii_ucd
        (strip ascii_ucd ([0x1F4C5] @ u '' Vig'' @ [0xEA] @ u ''ncia do contrato 71''))
       = contract_caption"
    by (simp add: text_defs contract_caption_def)
  show ?thesis
    using contract_button_fixed_reply[of "[7 \<mapsto> authorized]"
        "\<lparr> chat_id = 7, text = [0x1F4C5] @ u '' Vig'' @ [0xEA] @ u ''ncia do contrato 71'' \<rparr>"
        ascii_ucd sample_env] l
    by (simp add: sample_env_def)
qed

section \<open>Failures of the spreadsheet fetch and of the Gemini call\<close>

text \<open>The calls of the fetch are those of the Google client: no Telegram call, no Gemini call.\<close>

lemma get_credentials_trace:
  "set (fst (get_credentials E)) \<subseteq> {Refresh, Run_local_server} \<union> range Environ_set"
  by (auto simp: get_credentials_def renew_credentials_def
      split: sum.splits option.splits if_splits prod.splits)

lemma fetch_trace:
  "set (fst (get_google_sheets_data E))
     \<subseteq> {Refresh, Run_local_server, Values_get (SPREADSHEET_ID E) sheet_range}
        \<union> range Environ_set"
proof (cases "get_credentials E")
  case (Pair tr r)
  with get_credentials_trace[of E] show ?thesis
    by (cases r) (auto simp: get_google_sheets_data_def)
qed

lemma fetch_no_generate: "Generate_content md p \<notin> set (fst (get_google_sheets_data E))"
  using fetch_trace[of E] by auto

lemma fetch_no_reply: "Reply_text t k \<notin> set (fst (get_google_sheets_data E))"
  using fetch_trace[of E] by auto

lemma fetch_no_send: "Send_message c t k \<notin> set (fst (get_google_sheets_data E))"
  using fetch_trace[of E] by auto

lemma sample_credentials_upd:
  "get_credentials (sample_env\<lparr>values_get := f\<rparr>) = ([], Inr sample_creds)"
  "get_credentials (sample_env\<lparr>generate_content := g\<rparr>) = ([], Inr sample_creds)"
  by (simp_all add: get_credentials_def sample_env_def sample_creds_def u_def)

lemma forbidden_fetch:
  "get_google_sheets_data forbidden_env
     = ([Values_get (Some (u ''sheet'')) sheet_range], Inr (Str (u ''HttpError 403'')))"
  by (simp add: forbidden_env_def get_google_sheets_data_def sample_credentials_upd)
     (simp add: sample_env_def)

lemma quota_fetch:
  "get_google_sheets_data quota_env
     = ([Values_get (Some (u ''sheet'')) sheet_range], Inr (Rows [[u ''contrato'', u ''71'']]))"
  by (simp add: quota_env_def get_google_sheets_data_def sample_credentials_upd)
     (simp add: sample_env_def)

text \<open>
  C5 (as the code has it). When the spreadsheet read inside the \<open>try\<close> block raises an
  \<open>HttpError\<close>, \<open>get_google_sheets_data\<close> catches it and returns \<open>str(err)\<close>, a plain
  string, to its caller.
\<close>

theorem http_error_returned_as_string:
  assumes "get_credentials E = (tr, Inr c)"
      and "values_get E c = Inl (HttpError s)"
  shows "get_google_sheets_data E
           = (tr @ [Values_get (SPREADSHEET_ID E) sheet_range],
              Inr (Str (str_exn (HttpError s))))"
  using assms by (simp add: get_google_sheets_data_def)

theorem http_error_returned_as_string_witness:
  "get_credentials forbidden_env = ([], Inr sample_creds)
   \<and> values_get forbidden_env sample_creds = Inl (HttpError (u ''HttpError 403''))
   \<and> snd (get_google_sheets_data forbidden_env) = Inr (Str (u ''HttpError 403''))"
  using http_error_returned_as_string[of forbidden_env "[]" sample_creds "u ''HttpError 403''"]
  by (simp add: forbidden_env_def sample_credentials_upd)

text \<open>
  C5 as it is written fails: the handler of the \<open>try\<close> block is for \<open>HttpError\<close> only.
  When the read raises an exception of another class (here a timeout of the transport),
  the fetch returns no string: the exception is the outcome of the fetch.
\<close>

theorem transport_error_propagates:
  "values_get timeout_env sample_creds = Inl (OtherError (u ''timed out''))
   \<and> get_google_sheets_data timeout_env
       = ([Values_get (Some (u ''sheet'')) sheet_range], Inl (OtherError (u ''timed out'')))"
  by (simp add: timeout_env_def get_google_sheets_data_def sample_credentials_upd)
     (simp add: sample_env_def)

text \<open>
  C6. For a chat with an entry in \<open>USER_STATE\<close> and a message on the default path (its
  text is neither button caption), when the fetch returns a string, the handler replies
  with the error prefix followed by that string, and its trace has no Gemini call.
\<close>

theorem sheet_failure_skips_generator:
  assumes "USER_STATE (chat_id m) \<noteq> None"
      and "lower U (strip U (text m)) \<noteq> contract_caption"
      and "lower U (strip U (text m)) \<noteq> clear_caption"
      and "get_google_sheets_data E = (tr, Inr (Str s))"
  shows "handle_message U E USER_STATE m =
           (USER_STATE, tr @ [Reply_text (sheet_error_prefix @ s) None],
            telegram E (Reply_text (sheet_error_prefix @ s) None))
         \<and> (\<forall>md p. Generate_content md p \<notin> set (fst (snd (handle_message U E USER_STATE m))))"
proof -
  have h: "handle_message U E USER_STATE m =
           (USER_STATE, tr @ [Reply_text (sheet_error_prefix @ s) None],
            telegram E (Reply_text (sheet_error_prefix @ s) None))"
    using assms by (auto simp add: handle_message_def)
  have "Generate_content md p \<notin> set tr" for md p
    using fetch_no_generate[of md p E] assms(4) by simp
  with h show ?thesis by simp
qed

theorem sheet_failure_skips_generator_witness:
  "[7 \<mapsto> authorized] (7::int) \<noteq> None
   \<and> lower ascii_ucd (strip ascii_ucd (u '' Quanto? '')) \<noteq> contract_caption
   \<and> lower ascii_ucd (strip ascii_ucd (u '' Quanto? '')) \<noteq> clear_caption
   \<and> get_google_sheets_data forbidden_env
       = ([Values_get (Some (u ''sheet'')) sheet_range], Inr (Str (u ''HttpError 403'')))
   \<and> handle_message ascii_ucd forbidden_env [7 \<mapsto> authorized]
        \<lparr> chat_id = 7, text = u '' Quanto? '' \<rparr>
       = ([7 \<mapsto> authorized],
          [Values_get (Some (u ''sheet'')) sheet_range,
           Reply_text (sheet_error_prefix @ u ''HttpError 403'') None], None)"
  using sheet_failure_skips_generator[of "[7 \<mapsto> authorized]"
      "\<lparr> chat_id = 7, text = u '' Quanto? '' \<rparr>" ascii_ucd forbidden_env
      "[Values_get (Some (u ''sheet'')) sheet_range]" "u ''HttpError 403''"]
  by (simp add: question_text forbidden_fetch) (simp add: forbidden_env_def sample_env_def)

text \<open>
  C8. For a chat with an entry in \<open>USER_STATE\<close> and a message on the default path, when
  the fetch returns rows and the Gemini call raises, the handler ends with that
  exception, and its trace has no \<open>reply_text\<close> and no \<open>send_message\<close>: nothing is sent to
  the chat.
\<close>

theorem gemini_failure_propagates:
  assumes "USER_STATE (chat_id m) \<noteq> None"
      and "lower U (strip U (text m)) \<noteq> contract_caption"
      and "lower U (strip U (text m)) \<noteq> clear_caption"
      and "get_google_sheets_data E = (tr, Inr (Rows data))"
      and "generate_content E (prompt (json_dumps E data) (lower U (strip U (text m)))) = Inl e"
  shows "handle_message U E USER_STATE m =
           (USER_STATE,
            tr @ [Generate_content model_name
                    (prompt (json_dumps E data) (lower U (strip U (text m))))],
            Some e)
         \<and> (\<forall>t k. Reply_text t k \<notin> set (fst (snd (handle_message U E USER_STATE m))))
         \<and> (\<forall>c t k. Send_message c t k \<notin> set (fst (snd (handle_message U E USER_STATE m))))"
proof -
  have h: "handle_message U E USER_STATE m =
           (USER_STATE,
            tr @ [Generate_content model_name
                    (prompt (json_dumps E data) (lower U (strip U (text m))))],
            Some e)"
    using assms by (auto simp add: handle_message_def generate_gemini_response_def)
  have "Reply_text t k \<notin> set tr" for t k
    using fetch_no_reply[of t k E] assms(4) by simp
  moreover have "Send_message c t k \<notin> set tr" for c t k
    using fetch_no_send[of c t k E] assms(4) by simp
  ultimately show ?thesis using h by simp
qed

theorem gemini_failure_propagates_witness:
  "[7 \<mapsto> authorized] (7::int) \<noteq> None
   \<and> lower ascii_ucd (strip ascii_ucd (u '' Quanto? '')) \<noteq> contract_caption
   \<and> lower ascii_ucd (strip ascii_ucd (u '' Quanto? '')) \<noteq> clear_caption
   \<and> get_google_sheets_data quota_env
       = ([Values_get (Some (u ''sheet'')) sheet_range], Inr (Rows [[u ''contrato'', u ''71'']]))
   \<and> generate_content quota_env
        (prompt (json_dumps quota_env [[u ''contrato'', u ''71'']])
           (lower ascii_ucd (strip ascii_ucd (u '' Quanto? ''))))
       = Inl (OtherError (u ''429 quota''))
   \<and> snd (snd (handle_message ascii_ucd quota_env [7 \<mapsto> authorized]
        \<lparr> chat_id = 7, text = u '' Quanto? '' \<rparr>)) = Some (OtherError (u ''429 quota''))
   \<and> length (fst (snd (handle_message ascii_ucd quota_env [7 \<mapsto> authorized]
        \<lparr> chat_id = 7, text = u '' Quanto? '' \<rparr>))) = 2"
  using gemini_failure_propagates[of "[7 \<mapsto> authorized]"
      "\<lparr> chat_id = 7, text = u '' Quanto? '' \<rparr>" ascii_ucd quota_env
      "[Values_get (Some (u ''sheet'')) sheet_range]" "[[u ''contrato'', u ''71'']]"
      "OtherError (u ''429 quota'')"]
  by (simp add: question_text quota_fetch) (simp add: quota_env_def sample_env_def)

text \<open>
  C9. When the credentials are obtained and the spreadsheet read succeeds with no rows
  (an empty \<open>values\<close> list, or none), \<open>get_google_sheets_data\<close> returns the string
  \<open>"Nenhum dado encontrado."\<close>. The handler so takes it for a failure: on the default
  path of a chat with an entry in \<open>USER_STATE\<close> it replies with the error prefix followed
  by that string, and its trace has no Gemini call.
\<close>

theorem empty_sheet_is_failure:
  assumes "get_credentials E = (tr, Inr c)"
      and "values_get E c = Inr result"
      and "result = None \<or> result = Some []"
  shows "get_google_sheets_data E
           = (tr @ [Values_get (SPREADSHEET_ID E) sheet_range],
              Inr (Str (u ''Nenhum dado encontrado.'')))
         \<and> (USER_STATE (chat_id m) \<noteq> None
              \<and> lower U (strip U (text m)) \<noteq> contract_caption
              \<and> lower U (strip U (text m)) \<noteq> clear_caption \<longrightarrow>
            handle_message U E USER_STATE m =
              (USER_STATE,
               tr @ [Values_get (SPREADSHEET_ID E) sheet_range,
                     Reply_text (sheet_error_prefix @ u ''Nenhum dado encontrado.'') None],
               telegram E (Reply_text (sheet_error_prefix @ u ''Nenhum dado encontrado.'') None))
            \<and> (\<forall>md p. Generate_content md p
                   \<notin> set (fst (snd (handle_message U E USER_STATE m)))))"
proof -
  have f: "get_google_sheets_data E
           = (tr @ [Values_get (SPREADSHEET_ID E) sheet_range],
              Inr (Str (u ''Nenhum dado encontrado.'')))"
    using assms by (auto simp add: get_google_sheets_data_def no_data_def)
  have g: "Generate_content md p \<notin> set tr" for md p
    using fetch_no_generate[of md p E] f by simp
  show ?thesis
  proof (intro conjI impI)
    show "get_google_sheets_data E
           = (tr @ [Values_get (SPREADSHEET_ID E) sheet_range],
              Inr (Str (u ''Nenhum dado encontrado.'')))"
      by (rule f)
  next
    assume a: "USER_STATE (chat_id m) \<noteq> None
              \<and> lower U (strip U (text m)) \<noteq> contract_caption
              \<and> lower U (strip U (text m)) \<noteq> clear_caption"
    then show h: "handle_message U E USER_STATE m =
              (USER_STATE,
               tr @ [Values_get (SPREADSHEET_ID E) sheet_range,
                     Reply_text (sheet_error_prefix @ u ''Nenhum dado encontrado.'') None],
               telegram E (Reply_text (sheet_error_prefix @ u ''Nenhum dado encontrado.'') None))"
      using f by (auto simp add: handle_message_def)
    show "\<forall>md p. Generate_content md p \<notin> set (fst (snd (handle_message U E USER_STATE m)))"
      unfolding h using g by simp
  qed
qed

theorem empty_sheet_is_failure_witness:
  "get_credentials blank_env = ([], Inr sample_creds)
   \<and> values_get blank_env sample_creds = Inr (Some [])
   \<and> [7 \<mapsto> authorized] (7::int) \<noteq> None
   \<and> lower ascii_ucd (strip ascii_ucd (u '' Quanto? '')) \<noteq> contract_caption
   \<and> lower ascii_ucd (strip ascii_ucd (u '' Quanto? '')) \<noteq> clear_caption
   \<and> snd (get_google_sheets_data blank_env) = Inr (Str (u ''Nenhum dado encontrado.''))
   \<and> handle_message ascii_ucd blank_env [7 \<mapsto> authorized]
        \<lparr> chat_id = 7, text = u '' Quanto? '' \<rparr>
       = ([7 \<mapsto> authorized],
          [Values_get (Some (u ''sheet'')) sheet_range,
           Reply_text (sheet_error_prefix @ u ''Nenhum dado encontrado.'') None], None)"
  using empty_sheet_is_failure[of blank_env "[]" sample_creds "Some []" "[7 \<mapsto> authorized]"
      "\<lparr> chat_id = 7, text = u '' Quanto? '' \<rparr>" ascii_ucd]
  by (simp add: question_text blank_env_def sample_credentials_upd) (simp add: sample_env_def)

end
